theory Spec2Isabelle
  imports Complex_Main
begin

section \<open>Values, exceptions and the process environment\<close>

text \<open>
  The development embeds \<^verbatim>\<open>src/qemlflow/core/enhanced_models.py\<close>: the AutoML
  orchestrator (\<^verbatim>\<open>AutoMLModel\<close>), the gradient-boosting wrappers and the ensemble
  combiner. Hyperparameter values are Python ints, floats and strings; floats are
  modelled by exact reals.

  Names are resolved as Python resolves them: a function sees its own local imports
  and the names bound at module level. \<^verbatim>\<open>train_test_split\<close> is imported inside
  \<^verbatim>\<open>_fit_voting\<close> only; \<^verbatim>\<open>RandomForestModel\<close>, \<^verbatim>\<open>SVMModel\<close> and \<^verbatim>\<open>LinearModel\<close>
  inside \<^verbatim>\<open>_get_default_models\<close> only, and \<^verbatim>\<open>RandomForestModel\<close> also inside the
  fallback branch of \<^verbatim>\<open>AutoMLModel.fit\<close>. Anywhere else their use raises
  \<^verbatim>\<open>NameError\<close>.
\<close>

datatype pval = PInt int | PFloat real | PStr string

type_synonym params = "(string \<times> pval) list"
type_synonym sample = "real list"
type_synonym metrics = "(string \<times> real) list"

text \<open>
  Exceptions derived from Python's \<^verbatim>\<open>Exception\<close>: the \<^verbatim>\<open>ValueError\<close>s the module
  raises itself, the \<^verbatim>\<open>NameError\<close> of an unbound name (carrying the name),
  scikit-learn's \<^verbatim>\<open>NotFittedError\<close>, and any other exception coming out of a library
  call. The module defines no exception class of its own.
\<close>

datatype exn =
  ValueError string | NameError string | NotFittedError string | OtherException string

text \<open>\<^verbatim>\<open>str(e)\<close>, as the f-string of a warning renders an exception.\<close>

fun str_of_exn :: "exn \<Rightarrow> string" where
  "str_of_exn (ValueError msg) = msg"
| "str_of_exn (NameError name) = ''name '' @ name @ '' is not defined''"
| "str_of_exn (NotFittedError msg) = msg"
| "str_of_exn (OtherException msg) = msg"

text \<open>
  The names the module binds at top level whatever the import flags are, and the
  lookup of a name that no local scope binds.
\<close>

definition module_names :: "string list" where
  "module_names =
    [''warnings'', ''ABC'', ''abstractmethod'', ''Any'', ''Callable'', ''Dict'', ''List'',
     ''Optional'', ''Tuple'', ''Union'', ''np'', ''pd'', ''BaseEstimator'',
     ''ClassifierMixin'', ''RegressorMixin'', ''BaggingClassifier'', ''BaggingRegressor'',
     ''VotingClassifier'', ''VotingRegressor'', ''accuracy_score'', ''mean_absolute_error'',
     ''mean_squared_error'', ''r2_score'', ''roc_auc_score'', ''GridSearchCV'',
     ''RandomizedSearchCV'', ''cross_val_score'', ''LabelEncoder'', ''StandardScaler'',
     ''BaseModel'', ''HAS_XGBOOST'', ''HAS_LIGHTGBM'', ''HAS_CATBOOST'', ''HAS_TORCH'',
     ''HAS_OPTUNA'', ''EnsembleModel'', ''AutoMLModel'', ''create_ensemble_model'',
     ''create_automl_model'']"

definition global_name :: "string \<Rightarrow> exn + unit" where
  "global_name name = (if name \<in> set module_names then Inr () else Inl (NameError name))"

text \<open>The import-success flags computed once at module load.\<close>

record env =
  HAS_XGBOOST :: bool
  HAS_LIGHTGBM :: bool
  HAS_OPTUNA :: bool

section \<open>The search space of one trial\<close>

text \<open>
  An optuna trial as the objective uses it: its three \<^verbatim>\<open>suggest_*\<close> methods. The
  last argument of \<open>suggest_float\<close> is the \<^verbatim>\<open>log\<close> flag (default \<^verbatim>\<open>False\<close>).
\<close>

record trial =
  suggest_int :: "string \<Rightarrow> int \<Rightarrow> int \<Rightarrow> int"
  suggest_float :: "string \<Rightarrow> real \<Rightarrow> real \<Rightarrow> bool \<Rightarrow> real"
  suggest_categorical :: "string \<Rightarrow> string list \<Rightarrow> string"

datatype dist = IntDist int int | FloatDist real real bool | CatDist "string list"

fun suggest :: "trial \<Rightarrow> string \<times> dist \<Rightarrow> string \<times> pval" where
  "suggest t (name, IntDist lo hi) = (name, PInt (suggest_int t name lo hi))"
| "suggest t (name, FloatDist lo hi lg) = (name, PFloat (suggest_float t name lo hi lg))"
| "suggest t (name, CatDist cs) = (name, PStr (suggest_categorical t name cs))"

text \<open>
  The \<^verbatim>\<open>if/elif\<close> chain of \<^verbatim>\<open>objective\<close>: for each model type, the parameters it
  suggests, in the order of the dictionary literal. Any other model type leaves
  \<^verbatim>\<open>params = {}\<close>.
\<close>

definition param_space :: "env \<Rightarrow> string \<Rightarrow> (string \<times> dist) list" where
  "param_space e model_type =
    (if model_type = ''rf'' then
       [(''n_estimators'', IntDist 50 300),
        (''max_depth'', IntDist 3 20),
        (''min_samples_split'', IntDist 2 20),
        (''min_samples_leaf'', IntDist 1 10)]
     else if model_type = ''xgb'' \<and> HAS_XGBOOST e then
       [(''n_estimators'', IntDist 50 300),
        (''learning_rate'', FloatDist (1/100) (3/10) False),
        (''max_depth'', IntDist 3 10),
        (''subsample'', FloatDist (6/10) 1 False),
        (''colsample_bytree'', FloatDist (6/10) 1 False)]
     else if model_type = ''lgb'' \<and> HAS_LIGHTGBM e then
       [(''n_estimators'', IntDist 50 300),
        (''learning_rate'', FloatDist (1/100) (3/10) False),
        (''num_leaves'', IntDist 10 100),
        (''feature_fraction'', FloatDist (5/10) 1 False),
        (''bagging_fraction'', FloatDist (5/10) 1 False)]
     else if model_type = ''svm'' then
       [(''C'', FloatDist (1/10) 100 True),
        (''gamma'', CatDist [''scale'', ''auto'']),
        (''kernel'', CatDist [''linear'', ''rbf'', ''poly''])]
     else if model_type = ''linear'' then
       [(''regularization'', CatDist [''none'', ''ridge'', ''lasso'']),
        (''alpha'', FloatDist (1/1000) 10 True)]
     else [])"

text \<open>What optuna guarantees of a suggestion: it lies in the requested range.\<close>

fun in_dist :: "dist \<Rightarrow> pval \<Rightarrow> bool" where
  "in_dist (IntDist lo hi) (PInt v) = (lo \<le> v \<and> v \<le> hi)"
| "in_dist (FloatDist lo hi lg) (PFloat v) = (lo \<le> v \<and> v \<le> hi)"
| "in_dist (CatDist cs) (PStr s) = (s \<in> set cs)"
| "in_dist _ _ = False"

definition trial_in_range :: "trial \<Rightarrow> bool" where
  "trial_in_range t \<longleftrightarrow>
     (\<forall>name lo hi. lo \<le> hi \<longrightarrow> lo \<le> suggest_int t name lo hi \<and> suggest_int t name lo hi \<le> hi) \<and>
     (\<forall>name lo hi lg. lo \<le> hi \<longrightarrow>
        lo \<le> suggest_float t name lo hi lg \<and> suggest_float t name lo hi lg \<le> hi) \<and>
     (\<forall>name cs. cs \<noteq> [] \<longrightarrow> suggest_categorical t name cs \<in> set cs)"

fun is_log :: "dist \<Rightarrow> bool" where
  "is_log (FloatDist lo hi lg) = lg"
| "is_log _ = False"

section \<open>Candidate models\<close>

text \<open>
  A native estimator (an \<^verbatim>\<open>xgboost\<close>, \<^verbatim>\<open>lightgbm\<close> or \<^verbatim>\<open>sklearn\<close> object): its
  class, its constructor arguments, and, once its \<^verbatim>\<open>fit\<close> has run, the rows it was
  fitted on and the evaluation set it was given for early stopping.
\<close>

record estimator =
  est_class :: string
  est_params :: params
  est_trained_on :: "(sample list \<times> real list) option"
  est_eval_set :: "(sample list \<times> real list) option"

record BaseModel =
  task_type :: string
  is_fitted :: bool

text \<open>A wrapper around one native estimator (\<^verbatim>\<open>self.model\<close>); \<open>cls\<close> is its class.\<close>

record candidate = BaseModel +
  cls :: string
  model :: estimator

text \<open>
  Modelled from the spec: \<^verbatim>\<open>BaseModel.__init__\<close> of \<^verbatim>\<open>models.py\<close>, which is not
  among the sources. The capability contract has every model start unfitted, and a
  constructor rejects a configuration key it does not recognise.
\<close>

definition BaseModel_init :: "string \<Rightarrow> params \<Rightarrow> exn + BaseModel" where
  "BaseModel_init tt kwargs =
    (if kwargs = [] then Inr \<lparr>task_type = tt, is_fitted = False\<rparr>
     else Inl (OtherException ''unexpected keyword argument''))"

definition kw :: "params \<Rightarrow> string \<Rightarrow> pval \<Rightarrow> pval" where
  "kw ps name dflt = (case map_of ps name of Some v \<Rightarrow> v | None \<Rightarrow> dflt)"

definition XGBoostModel_init :: "string \<Rightarrow> params \<Rightarrow> exn + candidate" where
  "XGBoostModel_init tt ps =
    (let own = [''n_estimators'', ''learning_rate'', ''max_depth'', ''subsample'',
                ''colsample_bytree'', ''random_state''];
         kwargs = filter (\<lambda>(k, v). k \<notin> set own) ps
     in case BaseModel_init tt kwargs of
          Inl ex \<Rightarrow> Inl ex
        | Inr b \<Rightarrow>
            Inr \<lparr>task_type = task_type b, is_fitted = is_fitted b,
                 cls = ''XGBoostModel'',
                 model = \<lparr>est_class = (if task_type b = ''regression'' then ''XGBRegressor''
                                        else ''XGBClassifier''),
                          est_params =
                            [(''n_estimators'', kw ps ''n_estimators'' (PInt 100)),
                             (''learning_rate'', kw ps ''learning_rate'' (PFloat (1/10))),
                             (''max_depth'', kw ps ''max_depth'' (PInt 6)),
                             (''subsample'', kw ps ''subsample'' (PFloat (8/10))),
                             (''colsample_bytree'', kw ps ''colsample_bytree'' (PFloat (8/10))),
                             (''random_state'', kw ps ''random_state'' (PInt 42)),
                             (''verbosity'', PInt 0)],
                          est_trained_on = None, est_eval_set = None\<rparr>\<rparr>)"

definition LightGBMModel_init :: "string \<Rightarrow> params \<Rightarrow> exn + candidate" where
  "LightGBMModel_init tt ps =
    (let own = [''n_estimators'', ''learning_rate'', ''num_leaves'', ''feature_fraction'',
                ''bagging_fraction'', ''random_state''];
         kwargs = filter (\<lambda>(k, v). k \<notin> set own) ps
     in case BaseModel_init tt kwargs of
          Inl ex \<Rightarrow> Inl ex
        | Inr b \<Rightarrow>
            Inr \<lparr>task_type = task_type b, is_fitted = is_fitted b,
                 cls = ''LightGBMModel'',
                 model = \<lparr>est_class = (if task_type b = ''regression'' then ''LGBMRegressor''
                                        else ''LGBMClassifier''),
                          est_params =
                            [(''n_estimators'', kw ps ''n_estimators'' (PInt 100)),
                             (''learning_rate'', kw ps ''learning_rate'' (PFloat (1/10))),
                             (''num_leaves'', kw ps ''num_leaves'' (PInt 31)),
                             (''feature_fraction'', kw ps ''feature_fraction'' (PFloat (8/10))),
                             (''bagging_fraction'', kw ps ''bagging_fraction'' (PFloat (8/10))),
                             (''random_state'', kw ps ''random_state'' (PInt 42)),
                             (''verbosity'', PInt (-1))],
                          est_trained_on = None, est_eval_set = None\<rparr>\<rparr>)"

section \<open>Cross-validation strategies\<close>

text \<open>
  The splitters are always built with \<^verbatim>\<open>shuffle=True, random_state=42\<close>, so only the
  number of splits is kept. scikit-learn's constructors raise \<^verbatim>\<open>ValueError\<close> when
  \<^verbatim>\<open>n_splits\<close> is below 2.
\<close>

datatype cv_strategy = KFoldSplitter int | StratifiedKFoldSplitter int

definition KFold :: "int \<Rightarrow> exn + cv_strategy" where
  "KFold n_splits =
    (if n_splits \<le> 1 then Inl (ValueError ''n_splits must be 2 or more'')
     else Inr (KFoldSplitter n_splits))"

definition StratifiedKFold :: "int \<Rightarrow> exn + cv_strategy" where
  "StratifiedKFold n_splits =
    (if n_splits \<le> 1 then Inl (ValueError ''n_splits must be 2 or more'')
     else Inr (StratifiedKFoldSplitter n_splits))"

text \<open>\<^verbatim>\<open>len(np.unique(y))\<close>\<close>

definition n_unique :: "real list \<Rightarrow> int" where
  "n_unique y = int (length (remdups y))"

definition len :: "'a list \<Rightarrow> int" where
  "len xs = int (length xs)"

text \<open>
  The choice of splitter in \<^verbatim>\<open>objective\<close>, for a model with task type \<open>tt\<close> and
  \<open>folds\<close> requested folds. The inner handler catches \<^verbatim>\<open>ValueError\<close> only.
\<close>

definition choose_cv_strategy :: "string \<Rightarrow> int \<Rightarrow> real list \<Rightarrow> exn + cv_strategy" where
  "choose_cv_strategy tt folds y =
    (if tt = ''classification'' \<and> n_unique y > 1 then
       (case StratifiedKFold (min folds (n_unique y)) of
          Inl (ValueError msg) \<Rightarrow> KFold (min folds (len y div 2))
        | Inl ex \<Rightarrow> Inl ex
        | Inr cv \<Rightarrow> Inr cv)
     else KFold (min folds (len y div 2)))"

section \<open>Ensemble objects\<close>

text \<open>
  A scikit-learn ensemble (\<^verbatim>\<open>VotingRegressor\<close>, \<^verbatim>\<open>VotingClassifier\<close>,
  \<^verbatim>\<open>StackingRegressor\<close>, \<^verbatim>\<open>StackingClassifier\<close>): the estimators, voting mode, final
  estimator and fold count given to its constructor, and, once fitted, its own fitted
  copies of the estimators (\<^verbatim>\<open>estimators_\<close>).
\<close>

record sk_ensemble =
  ens_class :: string
  estimators :: "estimator list"
  voting :: "string option"
  final_estimator :: "estimator option"
  cv :: "int option"
  estimators_fitted :: "estimator list option"

record EnsembleModel = BaseModel +
  base_models :: "candidate list"
  ensemble_method :: string
  voting_strategy :: string
  meta_model :: "candidate option"
  stacking_cv_folds :: int
  ensemble :: "sk_ensemble option"

section \<open>Library calls\<close>

text \<open>
  What the module calls but does not define is a parameter of the model:
  scikit-learn's \<^verbatim>\<open>cross_val_score\<close> (called with \<^verbatim>\<open>error_score="raise"\<close>) and
  \<^verbatim>\<open>train_test_split\<close> (called with \<^verbatim>\<open>test_size=0.2, random_state=42\<close>), the native
  estimators' \<^verbatim>\<open>fit\<close> and \<^verbatim>\<open>predict\<close>, and the classes of \<^verbatim>\<open>models.py\<close>
  (\<^verbatim>\<open>RandomForestModel\<close>, \<^verbatim>\<open>SVMModel\<close>, \<^verbatim>\<open>LinearModel\<close>, \<^verbatim>\<open>BaseModel.evaluate\<close>).
  \<open>ensemble_fit\<close> and \<open>ensemble_predict\<close> stand for the scikit-learn ensembles other
  than \<^verbatim>\<open>VotingRegressor\<close>, which is modelled below.
  A call that can raise returns a sum; a method that mutates its object returns the
  object as well.
\<close>

record libs =
  cross_val_score ::
    "estimator \<Rightarrow> sample list \<Rightarrow> real list \<Rightarrow> cv_strategy \<Rightarrow> string \<Rightarrow> exn + real list"
  train_test_split ::
    "sample list \<Rightarrow> real list \<Rightarrow> exn + (sample list \<times> sample list \<times> real list \<times> real list)"
  native_fit_raises :: "estimator \<Rightarrow> sample list \<Rightarrow> real list \<Rightarrow> exn option"
  native_predict :: "estimator \<Rightarrow> sample list \<Rightarrow> exn + real list"
  evaluate :: "candidate \<Rightarrow> sample list \<Rightarrow> real list \<Rightarrow> exn + metrics"
  construct_base :: "string \<Rightarrow> string \<Rightarrow> params \<Rightarrow> exn + candidate"
  fit_base :: "candidate \<Rightarrow> sample list \<Rightarrow> real list \<Rightarrow> (exn + metrics) \<times> candidate"
  predict_base :: "candidate \<Rightarrow> sample list \<Rightarrow> exn + real list"
  evaluate_ensemble :: "EnsembleModel \<Rightarrow> sample list \<Rightarrow> real list \<Rightarrow> exn + metrics"
  ensemble_fit :: "sk_ensemble \<Rightarrow> sample list \<Rightarrow> real list \<Rightarrow> exn + sk_ensemble"
  ensemble_predict :: "sk_ensemble \<Rightarrow> sample list \<Rightarrow> exn + real list"

text \<open>
  \<^verbatim>\<open>self.model.fit(X_train, y_train, eval_set=[(X_val, y_val)], ...)\<close>: unless the
  library raises, the estimator has been fitted on exactly the rows passed first.
\<close>

definition native_fit ::
  "libs \<Rightarrow> estimator \<Rightarrow> sample list \<Rightarrow> real list \<Rightarrow> (sample list \<times> real list) option
     \<Rightarrow> exn + estimator" where
  "native_fit L est X y eval_set =
    (case native_fit_raises L est X y of
       Some ex \<Rightarrow> Inl ex
     | None \<Rightarrow> Inr (est\<lparr>est_trained_on := Some (X, y), est_eval_set := eval_set\<rparr>))"

subsection \<open>The gradient-boosting wrappers\<close>

text \<open>
  Both \<^verbatim>\<open>fit\<close> methods begin with a call of \<^verbatim>\<open>train_test_split\<close>, a name that is
  neither local to them nor bound at module level.
\<close>

definition XGBoostModel_fit ::
  "libs \<Rightarrow> candidate \<Rightarrow> sample list \<Rightarrow> real list \<Rightarrow> (exn + metrics) \<times> candidate" where
  "XGBoostModel_fit L self X y =
    (case global_name ''train_test_split'' of
       Inl ex \<Rightarrow> (Inl ex, self)
     | Inr bound \<Rightarrow>
    (case train_test_split L X y of
       Inl ex \<Rightarrow> (Inl ex, self)
     | Inr (X_train, X_val, y_train, y_val) \<Rightarrow>
         (case native_fit L (model self) X_train y_train (Some (X_val, y_val)) of
            Inl ex \<Rightarrow> (Inl ex, self)
          | Inr est \<Rightarrow>
              (let self' = self\<lparr>model := est, is_fitted := True\<rparr>
               in (evaluate L self' X_val y_val, self')))))"

definition LightGBMModel_fit ::
  "libs \<Rightarrow> candidate \<Rightarrow> sample list \<Rightarrow> real list \<Rightarrow> (exn + metrics) \<times> candidate" where
  "LightGBMModel_fit L self X y =
    (case global_name ''train_test_split'' of
       Inl ex \<Rightarrow> (Inl ex, self)
     | Inr bound \<Rightarrow>
    (case train_test_split L X y of
       Inl ex \<Rightarrow> (Inl ex, self)
     | Inr (X_train, X_val, y_train, y_val) \<Rightarrow>
         (case native_fit L (model self) X_train y_train (Some (X_val, y_val)) of
            Inl ex \<Rightarrow> (Inl ex, self)
          | Inr est \<Rightarrow>
              (let self' = self\<lparr>model := est, is_fitted := True\<rparr>
               in (evaluate L self' X_val y_val, self')))))"

definition boosted_predict :: "libs \<Rightarrow> candidate \<Rightarrow> sample list \<Rightarrow> exn + real list" where
  "boosted_predict L self X =
    (if \<not> is_fitted self then Inl (ValueError ''Model must be fitted before making predictions'')
     else native_predict L (model self) X)"

text \<open>Method dispatch on the class of a candidate.\<close>

definition candidate_fit ::
  "libs \<Rightarrow> candidate \<Rightarrow> sample list \<Rightarrow> real list \<Rightarrow> (exn + metrics) \<times> candidate" where
  "candidate_fit L m X y =
    (if cls m = ''XGBoostModel'' then XGBoostModel_fit L m X y
     else if cls m = ''LightGBMModel'' then LightGBMModel_fit L m X y
     else fit_base L m X y)"

definition candidate_predict :: "libs \<Rightarrow> candidate \<Rightarrow> sample list \<Rightarrow> exn + real list" where
  "candidate_predict L m X =
    (if cls m = ''XGBoostModel'' \<or> cls m = ''LightGBMModel'' then boosted_predict L m X
     else predict_base L m X)"

section \<open>The AutoML orchestrator\<close>

datatype direction = Minimize | Maximize

text \<open>A finished optuna trial: the values it suggested, by name, and the objective's value.\<close>

record frozen_trial =
  ft_params :: params
  ft_value :: real

record study =
  study_direction :: direction
  trials :: "frozen_trial list"

record AutoMLModel = BaseModel +
  model_types :: "string list"
  optimization_metric :: string
  n_trials :: int
  cv_folds :: int
  timeout :: "int option"
  best_model :: "candidate option"
  best_params :: "params option"
  study :: "study option"

text \<open>
  \<^verbatim>\<open>AutoMLModel.__init__\<close>. \<open>mts\<close> is the \<^verbatim>\<open>model_types\<close> argument (\<open>None\<close> and the
  empty list both select the default list), \<open>kwargs\<close> what is left for \<^verbatim>\<open>BaseModel\<close>
  besides the task type.
\<close>

definition AutoMLModel_init ::
  "env \<Rightarrow> string \<Rightarrow> params \<Rightarrow> string list option \<Rightarrow> string \<Rightarrow> int \<Rightarrow> int \<Rightarrow> int option
     \<Rightarrow> exn + AutoMLModel" where
  "AutoMLModel_init e tt kwargs mts opt_metric trials_n folds tmo =
    (case BaseModel_init tt kwargs of
       Inl ex \<Rightarrow> Inl ex
     | Inr b \<Rightarrow>
         (let requested = (case mts of None \<Rightarrow> [''rf'', ''xgb'', ''lgb'', ''svm'', ''linear'']
                           | Some ms \<Rightarrow> if ms = [] then [''rf'', ''xgb'', ''lgb'', ''svm'', ''linear'']
                                        else ms);
              available_models = [''rf'', ''svm'', ''linear'']
                 @ (if HAS_XGBOOST e then [''xgb''] else [])
                 @ (if HAS_LIGHTGBM e then [''lgb''] else []);
              kept = filter (\<lambda>m. m \<in> set available_models) requested
          in if kept = [] then Inl (ValueError ''No available model types found'')
             else Inr \<lparr>task_type = task_type b, is_fitted = is_fitted b,
                       model_types = kept, optimization_metric = opt_metric,
                       n_trials = trials_n, cv_folds = folds, timeout = tmo,
                       best_model = None, best_params = None, study = None\<rparr>))"

text \<open>
  \<^verbatim>\<open>_create_model\<close>. The classes of \<^verbatim>\<open>models.py\<close> are not in its scope;
  \<^verbatim>\<open>XGBoostModel\<close> and \<^verbatim>\<open>LightGBMModel\<close> are module-level classes when their flag is
  set.
\<close>

definition create_model ::
  "libs \<Rightarrow> env \<Rightarrow> string \<Rightarrow> string \<Rightarrow> params \<Rightarrow> exn + candidate" where
  "create_model L e tt model_type ps =
    (if model_type = ''rf'' then
       (case global_name ''RandomForestModel'' of
          Inl ex \<Rightarrow> Inl ex
        | Inr bound \<Rightarrow> construct_base L ''RandomForestModel'' tt ps)
     else if model_type = ''xgb'' \<and> HAS_XGBOOST e then XGBoostModel_init tt ps
     else if model_type = ''lgb'' \<and> HAS_LIGHTGBM e then LightGBMModel_init tt ps
     else if model_type = ''svm'' then
       (case global_name ''SVMModel'' of
          Inl ex \<Rightarrow> Inl ex
        | Inr bound \<Rightarrow> construct_base L ''SVMModel'' tt ps)
     else if model_type = ''linear'' then
       (case global_name ''LinearModel'' of
          Inl ex \<Rightarrow> Inl ex
        | Inr bound \<Rightarrow> construct_base L ''LinearModel'' tt ps)
     else Inl (ValueError (''Unknown model type: '' @ model_type)))"

subsection \<open>The objective of one trial\<close>

definition mean :: "real list \<Rightarrow> real" where
  "mean xs = sum_list xs / real (length xs)"

text \<open>The \<^verbatim>\<open>scoring\<close> string handed to \<^verbatim>\<open>cross_val_score\<close> for a metric.\<close>

definition scoring :: "string \<Rightarrow> string" where
  "scoring metric =
    (if metric = ''rmse'' then ''neg_mean_squared_error''
     else if metric = ''r2'' then ''r2''
     else if metric = ''accuracy'' then ''accuracy''
     else ''neg_mean_squared_error'')"

text \<open>What the objective returns from the fold scores.\<close>

definition cv_value :: "string \<Rightarrow> real list \<Rightarrow> real" where
  "cv_value metric scores =
    (if metric = ''rmse'' then (if length scores > 0 then sqrt (- mean scores) else 1000000)
     else if metric = ''r2'' then (if length scores > 0 then mean scores else - 1000000)
     else if metric = ''accuracy'' then (if length scores > 0 then mean scores else 0)
     else (if length scores > 0 then - mean scores else 1000000))"

text \<open>The value returned by the \<^verbatim>\<open>except Exception\<close> handler.\<close>

definition failure_score :: "string \<Rightarrow> real" where
  "failure_score metric = (if metric \<in> {''rmse'', ''neg_mse''} then 1000000 else - 1000000)"

text \<open>The body of the \<^verbatim>\<open>try\<close> block: construction, choice of splitter, cross-validation.\<close>

definition objective_try ::
  "libs \<Rightarrow> env \<Rightarrow> 'a AutoMLModel_scheme \<Rightarrow> sample list \<Rightarrow> real list \<Rightarrow> string \<Rightarrow> string
     \<Rightarrow> params \<Rightarrow> exn + real" where
  "objective_try L e self X y metric model_type ps =
    (case create_model L e (task_type self) model_type ps of
       Inl ex \<Rightarrow> Inl ex
     | Inr m \<Rightarrow>
         (case choose_cv_strategy (task_type self) (cv_folds self) y of
            Inl ex \<Rightarrow> Inl ex
          | Inr cv_strategy \<Rightarrow>
              (case cross_val_score L (model m) X y cv_strategy (scoring metric) of
                 Inl ex \<Rightarrow> Inl ex
               | Inr scores \<Rightarrow> Inr (cv_value metric scores))))"

text \<open>
  \<^verbatim>\<open>objective(trial)\<close>: the trial's recorded parameters (\<^verbatim>\<open>trial.params\<close>), the value
  returned to the study, and the warnings issued.
\<close>

definition objective ::
  "libs \<Rightarrow> env \<Rightarrow> 'a AutoMLModel_scheme \<Rightarrow> sample list \<Rightarrow> real list \<Rightarrow> string \<Rightarrow> trial
     \<Rightarrow> params \<times> real \<times> string list" where
  "objective L e self X y metric t =
    (let model_type = suggest_categorical t ''model_type'' (model_types self);
         ps = map (suggest t) (param_space e model_type);
         recorded = (''model_type'', PStr model_type) # ps
     in case objective_try L e self X y metric model_type ps of
          Inr v \<Rightarrow> (recorded, v, [])
        | Inl ex \<Rightarrow>
            (recorded, failure_score metric,
             [''Model '' @ model_type @ '' failed during CV: '' @ str_of_exn ex]))"

subsection \<open>The study\<close>

text \<open>
  \<^verbatim>\<open>optuna.create_study(direction=direction)\<close> is called without a sampler, so optuna
  builds its default one, seeded from the operating system. \<open>ask\<close> is that sampler:
  from the finished trials it yields the next trial. \<open>study_optimize\<close> runs \<open>n\<close>
  trials in sequence, appending each to the history.
\<close>

fun study_optimize ::
  "(trial \<Rightarrow> params \<times> real \<times> string list) \<Rightarrow> (frozen_trial list \<Rightarrow> trial) \<Rightarrow> nat
     \<Rightarrow> frozen_trial list \<Rightarrow> string list \<Rightarrow> frozen_trial list \<times> string list" where
  "study_optimize obj ask 0 hist ws = (hist, ws)"
| "study_optimize obj ask (Suc n) hist ws =
     (case obj (ask hist) of
        (ps, v, w) \<Rightarrow> study_optimize obj ask n (hist @ [\<lparr>ft_params = ps, ft_value = v\<rparr>]) (ws @ w))"

text \<open>
  The study's best trial: the first one no later trial strictly improves on, in the
  study's direction; none when no trial has finished.
\<close>

definition better :: "direction \<Rightarrow> real \<Rightarrow> real \<Rightarrow> bool" where
  "better d a b = (case d of Minimize \<Rightarrow> a < b | Maximize \<Rightarrow> a > b)"

fun best_trial_from :: "direction \<Rightarrow> frozen_trial \<Rightarrow> frozen_trial list \<Rightarrow> frozen_trial" where
  "best_trial_from d b [] = b"
| "best_trial_from d b (t # ts) =
     best_trial_from d (if better d (ft_value t) (ft_value b) then t else b) ts"

definition best_trial :: "direction \<Rightarrow> frozen_trial list \<Rightarrow> frozen_trial option" where
  "best_trial d ts = (case ts of [] \<Rightarrow> None | t # ts' \<Rightarrow> Some (best_trial_from d t ts'))"

text \<open>The metric and the direction \<^verbatim>\<open>fit\<close> settles on.\<close>

definition resolve_metric :: "string \<Rightarrow> string \<Rightarrow> string \<times> direction" where
  "resolve_metric opt_metric tt =
    (if opt_metric = ''auto'' then
       (if tt = ''regression'' then (''rmse'', Minimize) else (''accuracy'', Maximize))
     else (opt_metric,
           if opt_metric \<in> {''rmse'', ''mse'', ''mae''} then Minimize else Maximize))"

text \<open>
  How many trials \<^verbatim>\<open>study.optimize(objective, n_trials, timeout)\<close> runs: \<open>n_trials\<close>
  of them, or fewer when a timeout is set and the clock stops the loop after \<open>budget\<close>
  trials.
\<close>

definition trials_run :: "'a AutoMLModel_scheme \<Rightarrow> nat \<Rightarrow> nat" where
  "trials_run self budget =
    (case timeout self of None \<Rightarrow> nat (n_trials self)
     | Some s \<Rightarrow> min (nat (n_trials self)) budget)"

subsection \<open>fit and predict\<close>

text \<open>
  \<^verbatim>\<open>AutoMLModel.fit\<close>: the metrics or the exception, the object afterwards, and the
  warnings issued. \<open>ask\<close> and \<open>budget\<close> are optuna's sampler and the clock.
\<close>

definition AutoMLModel_fit ::
  "libs \<Rightarrow> env \<Rightarrow> (frozen_trial list \<Rightarrow> trial) \<Rightarrow> nat \<Rightarrow> AutoMLModel \<Rightarrow> sample list \<Rightarrow> real list
     \<Rightarrow> (exn + metrics) \<times> AutoMLModel \<times> string list" where
  "AutoMLModel_fit L e ask budget self X y =
    (if \<not> HAS_OPTUNA e then
       (case construct_base L ''RandomForestModel'' (task_type self) [] of
          Inl ex \<Rightarrow> (Inl ex, self, [''Optuna not available. Using default Random Forest.''])
        | Inr rf \<Rightarrow>
            (case candidate_fit L rf X y of
               (res, rf') \<Rightarrow>
                 (res, self\<lparr>best_model := Some rf'\<rparr>,
                  [''Optuna not available. Using default Random Forest.''])))
     else
       (case resolve_metric (optimization_metric self) (task_type self) of
          (metric, direction) \<Rightarrow>
       (case study_optimize (objective L e self X y metric) ask (trials_run self budget) [] [] of
          (hist, ws) \<Rightarrow>
       (let self1 = self\<lparr>study := Some \<lparr>study_direction = direction, trials = hist\<rparr>\<rparr>
        in case best_trial direction hist of
          None \<Rightarrow> (Inl (ValueError ''No trials are completed yet.''), self1, ws)
        | Some bt \<Rightarrow>
       (case map_of (ft_params bt) ''model_type'' of
          None \<Rightarrow> (Inl (OtherException ''KeyError: model_type''),
                   self1\<lparr>best_params := Some (ft_params bt)\<rparr>, ws)
        | Some mt \<Rightarrow>
       (let bp = filter (\<lambda>(k, v). k \<noteq> ''model_type'') (ft_params bt);
            self2 = self1\<lparr>best_params := Some bp\<rparr>;
            model_type = (case mt of PStr s \<Rightarrow> s | _ \<Rightarrow> [])
        in case create_model L e (task_type self) model_type bp of
          Inl ex \<Rightarrow> (Inl ex, self2, ws)
        | Inr m \<Rightarrow>
       (case candidate_fit L m X y of
          (Inl ex, m') \<Rightarrow> (Inl ex, self2\<lparr>best_model := Some m'\<rparr>, ws)
        | (Inr final_metrics, m') \<Rightarrow>
            (Inr final_metrics, self2\<lparr>best_model := Some m', is_fitted := True\<rparr>, ws))))))))"

definition AutoMLModel_predict ::
  "libs \<Rightarrow> AutoMLModel \<Rightarrow> sample list \<Rightarrow> exn + real list" where
  "AutoMLModel_predict L self X =
    (if \<not> is_fitted self \<or> best_model self = None
     then Inl (ValueError ''Model must be fitted before making predictions'')
     else candidate_predict L (the (best_model self)) X)"

definition get_best_params :: "AutoMLModel \<Rightarrow> exn + params" where
  "get_best_params self =
    (case best_params self of
       None \<Rightarrow> Inl (ValueError ''Model must be fitted first'')
     | Some bp \<Rightarrow> Inr bp)"

section \<open>The ensemble combiner\<close>




fun collect :: "(exn + 'a) list \<Rightarrow> exn + 'a list" where
  "collect [] = Inr []"
| "collect (r # rs) =
     (case r of
        Inl ex \<Rightarrow> Inl ex
      | Inr v \<Rightarrow> (case collect rs of Inl ex \<Rightarrow> Inl ex | Inr vs \<Rightarrow> Inr (v # vs)))"





text \<open>
  \<^verbatim>\<open>EnsembleModel.__init__\<close>; a missing or empty list of base models is replaced by
  the default models.
\<close>

definition get_default_models :: "libs \<Rightarrow> string \<Rightarrow> exn + candidate list" where
  "get_default_models L tt =
    collect [construct_base L ''LinearModel'' tt [(''regularization'', PStr ''ridge'')],
             construct_base L ''RandomForestModel'' tt [(''n_estimators'', PInt 100)],
             construct_base L ''SVMModel'' tt [(''kernel'', PStr ''rbf'')]]"

definition EnsembleModel_init ::
  "libs \<Rightarrow> string \<Rightarrow> params \<Rightarrow> candidate list option \<Rightarrow> string \<Rightarrow> string \<Rightarrow> candidate option
     \<Rightarrow> int \<Rightarrow> exn + EnsembleModel" where
  "EnsembleModel_init L tt kwargs bms method strategy meta folds =
    (case BaseModel_init tt kwargs of
       Inl ex \<Rightarrow> Inl ex
     | Inr b \<Rightarrow>
         (case (case bms of None \<Rightarrow> get_default_models L tt
                | Some ms \<Rightarrow> if ms = [] then get_default_models L tt else Inr ms) of
            Inl ex \<Rightarrow> Inl ex
          | Inr ms \<Rightarrow>
              Inr \<lparr>task_type = task_type b, is_fitted = is_fitted b,
                   base_models = ms, ensemble_method = method, voting_strategy = strategy,
                   meta_model = meta, stacking_cv_folds = folds, ensemble = None\<rparr>))"







section \<open>Concrete instances\<close>

text \<open>
  Small stand-ins for the library calls, on which the theorems below are run. The
  split holds out the first fifth of the rows (rounded up); cross-validation reports
  one fold whose score is minus the mean square of the targets; a native estimator
  predicts its parameter \<open>alpha\<close> on every row.
\<close>

definition demo_split ::
  "sample list \<Rightarrow> real list
     \<Rightarrow> exn + (sample list \<times> sample list \<times> real list \<times> real list)" where
  "demo_split X y =
    (let k = (length X + 4) div 5
     in if length X \<le> k then Inl (ValueError ''the resulting train set will be empty'')
        else Inr (drop k X, take k X, drop k y, take k y))"

definition demo_predict :: "estimator \<Rightarrow> sample list \<Rightarrow> exn + real list" where
  "demo_predict est X =
    Inr (map (\<lambda>row. case map_of (est_params est) ''alpha'' of
                       Some (PFloat a) \<Rightarrow> a | _ \<Rightarrow> 0) X)"

definition demo_construct :: "string \<Rightarrow> string \<Rightarrow> params \<Rightarrow> exn + candidate" where
  "demo_construct c tt ps =
    Inr \<lparr>task_type = tt, is_fitted = False, cls = c,
         model = \<lparr>est_class = c, est_params = ps,
                  est_trained_on = None, est_eval_set = None\<rparr>\<rparr>"

definition demo_fit ::
  "candidate \<Rightarrow> sample list \<Rightarrow> real list \<Rightarrow> (exn + metrics) \<times> candidate" where
  "demo_fit m X y =
    (Inr [(''r2'', 1)],
     m\<lparr>is_fitted := True, model := (model m)\<lparr>est_trained_on := Some (X, y)\<rparr>\<rparr>)"

definition demo_libs :: libs where
  "demo_libs =
    \<lparr>cross_val_score =
       (\<lambda>est X y cv_strategy sc. Inr [- (sum_list (map (\<lambda>v. v * v) y) / real (length y))]),
     train_test_split = demo_split,
     native_fit_raises = (\<lambda>est X y. None),
     native_predict = demo_predict,
     evaluate = (\<lambda>m X y. Inr [(''r2'', 1)]),
     construct_base = demo_construct,
     fit_base = demo_fit,
     predict_base = (\<lambda>m X. demo_predict (model m) X),
     evaluate_ensemble = (\<lambda>self X y. Inr [(''r2'', 1)]),
     ensemble_fit = (\<lambda>ens X y. Inr ens),
     ensemble_predict = (\<lambda>ens X. Inr (map (\<lambda>row. 0) X))\<rparr>"

text \<open>Two trials: one answers every suggestion with the low end, one with the high end.\<close>

definition low_trial :: trial where
  "low_trial =
    \<lparr>suggest_int = (\<lambda>name lo hi. lo),
     suggest_float = (\<lambda>name lo hi lg. lo),
     suggest_categorical = (\<lambda>name cs. hd cs)\<rparr>"

definition high_trial :: trial where
  "high_trial =
    \<lparr>suggest_int = (\<lambda>name lo hi. hi),
     suggest_float = (\<lambda>name lo hi lg. hi),
     suggest_categorical = (\<lambda>name cs. last cs)\<rparr>"

definition demo_env :: env where
  "demo_env = \<lparr>HAS_XGBOOST = True, HAS_LIGHTGBM = False, HAS_OPTUNA = True\<rparr>"

definition no_optuna_env :: env where
  "no_optuna_env = \<lparr>HAS_XGBOOST = False, HAS_LIGHTGBM = False, HAS_OPTUNA = False\<rparr>"

text \<open>An orchestrator as \<^verbatim>\<open>AutoMLModel(task_type="regression", ...)\<close> leaves it.\<close>

definition demo_automl :: "string list \<Rightarrow> string \<Rightarrow> int \<Rightarrow> AutoMLModel" where
  "demo_automl mts opt_metric trials_n =
    \<lparr>task_type = ''regression'', is_fitted = False,
     model_types = mts, optimization_metric = opt_metric,
     n_trials = trials_n, cv_folds = 5, timeout = None,
     best_model = None, best_params = None, study = None\<rparr>"

definition demo_X :: "sample list" where
  "demo_X = [[0], [1], [2], [3], [4], [5], [6], [7], [8], [9]]"

definition demo_y :: "real list" where
  "demo_y = [0, 1, 2, 3, 4, 5, 6, 7, 8, 9]"

section \<open>Further instances\<close>








section \<open>What one trial draws\<close>

text \<open>
  A recorded parameter that is the trial's answer to \<^verbatim>\<open>suggest_int(name, lo, hi)\<close>,
  to \<^verbatim>\<open>suggest_float(name, lo, hi, log=lg)\<close> or to
  \<^verbatim>\<open>suggest_categorical(name, cs)\<close>, and lies in the range asked for.
\<close>

definition drawn_int :: "(string \<rightharpoonup> pval) \<Rightarrow> trial \<Rightarrow> string \<Rightarrow> int \<Rightarrow> int \<Rightarrow> bool" where
  "drawn_int rec t name lo hi \<longleftrightarrow>
     rec name = Some (PInt (suggest_int t name lo hi)) \<and>
     lo \<le> suggest_int t name lo hi \<and> suggest_int t name lo hi \<le> hi"

definition drawn_float ::
  "(string \<rightharpoonup> pval) \<Rightarrow> trial \<Rightarrow> string \<Rightarrow> real \<Rightarrow> real \<Rightarrow> bool \<Rightarrow> bool" where
  "drawn_float rec t name lo hi lg \<longleftrightarrow>
     rec name = Some (PFloat (suggest_float t name lo hi lg)) \<and>
     lo \<le> suggest_float t name lo hi lg \<and> suggest_float t name lo hi lg \<le> hi"

definition drawn_cat :: "(string \<rightharpoonup> pval) \<Rightarrow> trial \<Rightarrow> string \<Rightarrow> string list \<Rightarrow> bool" where
  "drawn_cat rec t name cs \<longleftrightarrow>
     rec name = Some (PStr (suggest_categorical t name cs)) \<and>
     suggest_categorical t name cs \<in> set cs"


section \<open>Prediction before and after fit\<close>

lemma init_unfitted:
  assumes "AutoMLModel_init e tt kwargs mts opt_metric trials_n folds tmo = Inr self"
  shows "\<not> is_fitted self"
  using assms
  by (auto simp: AutoMLModel_init_def BaseModel_init_def Let_def split: sum.splits if_splits)

lemma init_demo:
  "AutoMLModel_init no_optuna_env ''regression'' [] None ''auto'' 100 5 None
     = Inr (demo_automl [''rf'', ''svm'', ''linear''] ''auto'' 100)"
  by (simp add: AutoMLModel_init_def BaseModel_init_def no_optuna_env_def demo_automl_def)

lemma fallback_demo:
  "fst (AutoMLModel_fit demo_libs no_optuna_env ask 0
          (demo_automl [''rf'', ''svm'', ''linear''] ''auto'' 100) demo_X demo_y)
     = Inr [(''r2'', 1)]"
  by (simp add: AutoMLModel_fit_def no_optuna_env_def demo_libs_def demo_construct_def
      candidate_fit_def demo_fit_def demo_automl_def)

text \<open>
  C10. Without optuna, a \<^verbatim>\<open>fit\<close> that returns metrics leaves \<^verbatim>\<open>is_fitted\<close> as it
  was, that is false, although \<^verbatim>\<open>best_model\<close> is set; every later \<^verbatim>\<open>predict\<close>
  raises the not-fitted error.
\<close>

theorem fallback_fit_leaves_unfitted:
  assumes "AutoMLModel_init e tt kwargs mts opt_metric trials_n folds tmo = Inr self"
    and "\<not> HAS_OPTUNA e"
    and "AutoMLModel_fit L e ask budget self X y = (Inr fit_metrics, self', ws)"
  shows "is_fitted self' = is_fitted self \<and> \<not> is_fitted self' \<and> best_model self' \<noteq> None \<and>
         AutoMLModel_predict L self' X' =
           Inl (ValueError ''Model must be fitted before making predictions'')"
proof -
  have nf: "\<not> is_fitted self" using assms(1) by (rule init_unfitted)
  from assms(2,3) obtain r where "self' = self\<lparr>best_model := Some r\<rparr>"
    by (auto simp: AutoMLModel_fit_def split: sum.splits prod.splits)
  with nf show ?thesis by (simp add: AutoMLModel_predict_def)
qed

theorem fallback_fit_leaves_unfitted_witness:
  "\<not> HAS_OPTUNA no_optuna_env \<and>
   fst (AutoMLModel_fit demo_libs no_optuna_env (\<lambda>h. low_trial) 0
          (demo_automl [''rf'', ''svm'', ''linear''] ''auto'' 100) demo_X demo_y)
     = Inr [(''r2'', 1)] \<and>
   AutoMLModel_predict demo_libs
       (fst (snd (AutoMLModel_fit demo_libs no_optuna_env (\<lambda>h. low_trial) 0
          (demo_automl [''rf'', ''svm'', ''linear''] ''auto'' 100) demo_X demo_y))) demo_X
     = Inl (ValueError ''Model must be fitted before making predictions'')"
proof -
  let ?r = "AutoMLModel_fit demo_libs no_optuna_env (\<lambda>h. low_trial) 0
          (demo_automl [''rf'', ''svm'', ''linear''] ''auto'' 100) demo_X demo_y"
  have h2: "\<not> HAS_OPTUNA no_optuna_env" by (simp add: no_optuna_env_def)
  have "fst ?r = Inr [(''r2'', 1)]" by (rule fallback_demo)
  then have h3: "?r = (Inr [(''r2'', 1)], fst (snd ?r), snd (snd ?r))"
    by (metis prod.collapse)
  show ?thesis
    using h2 fallback_demo fallback_fit_leaves_unfitted [OF init_demo h2 h3, of demo_X]
    by simp
qed

section \<open>The metric auc\<close>

text \<open>
  C4 at the metric \<open>auc\<close>: \<^verbatim>\<open>fit\<close> tells the study to maximize, while the objective
  falls through to its last branch and returns the mean squared error, where lower is
  better. Of two candidates with mean squared errors \<open>1\<close> and \<open>4\<close>, the study's best
  trial is the one with error \<open>4\<close>.
\<close>

theorem auc_direction_mismatch:
  "resolve_metric ''auc'' ''classification'' = (''auc'', Maximize) \<and>
   scoring ''auc'' = ''neg_mean_squared_error'' \<and>
   cv_value ''auc'' [- 1, - 1] = 1 \<and>
   cv_value ''auc'' [- 4, - 4] = 4 \<and>
   best_trial Maximize
     [\<lparr>ft_params = [(''model_type'', PStr ''rf'')], ft_value = cv_value ''auc'' [- 1, - 1]\<rparr>,
      \<lparr>ft_params = [(''model_type'', PStr ''svm'')], ft_value = cv_value ''auc'' [- 4, - 4]\<rparr>]
     = Some \<lparr>ft_params = [(''model_type'', PStr ''svm'')], ft_value = 4\<rparr>"
  by (simp add: resolve_metric_def scoring_def cv_value_def mean_def best_trial_def better_def)

section \<open>The error of an early predict\<close>

text \<open>
  C7, as the code has it. An orchestrator that \<^verbatim>\<open>__init__\<close> has just built, on
  which \<^verbatim>\<open>fit\<close> has not run, fails on \<^verbatim>\<open>predict\<close> with
  \<^verbatim>\<open>ValueError("Model must be fitted before making predictions")\<close>.
\<close>

theorem predict_before_fit_raises:
  assumes "AutoMLModel_init e tt kwargs mts opt_metric trials_n folds tmo = Inr self"
  shows "AutoMLModel_predict L self X =
           Inl (ValueError ''Model must be fitted before making predictions'')"
proof -
  from assms have "best_model self = None"
    by (auto simp: AutoMLModel_init_def Let_def split: sum.splits if_splits)
  then show ?thesis by (simp add: AutoMLModel_predict_def)
qed

theorem predict_before_fit_raises_witness:
  "AutoMLModel_init no_optuna_env ''regression'' [] None ''auto'' 100 5 None
     = Inr (demo_automl [''rf'', ''svm'', ''linear''] ''auto'' 100) \<and>
   AutoMLModel_predict demo_libs (demo_automl [''rf'', ''svm'', ''linear''] ''auto'' 100) demo_X
     = Inl (ValueError ''Model must be fitted before making predictions'')"
  using predict_before_fit_raises [OF init_demo, of demo_libs demo_X] init_demo by simp

text \<open>
  The exception of a fresh orchestrator's \<^verbatim>\<open>predict\<close> is a \<^verbatim>\<open>ValueError\<close>; it is
  not a \<^verbatim>\<open>NotFittedError\<close>, whatever the message.
\<close>

theorem not_fitted_error_counterexample:
  "AutoMLModel_init no_optuna_env ''regression'' [] None ''auto'' 100 5 None
     = Inr (demo_automl [''rf'', ''svm'', ''linear''] ''auto'' 100) \<and>
   (case AutoMLModel_predict demo_libs
           (demo_automl [''rf'', ''svm'', ''linear''] ''auto'' 100) demo_X of
      Inl (NotFittedError msg) \<Rightarrow> False
    | Inl (ValueError msg) \<Rightarrow> msg = ''Model must be fitted before making predictions''
    | _ \<Rightarrow> False) \<and>
   AutoMLModel_predict demo_libs (demo_automl [''rf'', ''svm'', ''linear''] ''auto'' 100) demo_X
     \<noteq> Inl (NotFittedError ''Model must be fitted before making predictions'')"
  by (simp add: AutoMLModel_init_def BaseModel_init_def no_optuna_env_def demo_automl_def
      AutoMLModel_predict_def)

section \<open>The fallback without optuna\<close>




section \<open>The number of folds\<close>





section \<open>The ranges of the search space\<close>

lemma low_trial_in_range: "trial_in_range low_trial"
  by (auto simp: trial_in_range_def low_trial_def)

lemma objective_recorded:
  "fst (objective L e self X y metric t) =
     (''model_type'', PStr (suggest_categorical t ''model_type'' (model_types self)))
       # map (suggest t)
           (param_space e (suggest_categorical t ''model_type'' (model_types self)))"
  by (simp add: objective_def Let_def split: sum.splits)

lemma in_range_int:
  "trial_in_range t \<Longrightarrow> lo \<le> hi \<Longrightarrow>
     lo \<le> suggest_int t name lo hi \<and> suggest_int t name lo hi \<le> hi"
  by (simp add: trial_in_range_def)

lemma in_range_float:
  "trial_in_range t \<Longrightarrow> lo \<le> hi \<Longrightarrow>
     lo \<le> suggest_float t name lo hi lg \<and> suggest_float t name lo hi lg \<le> hi"
  by (simp add: trial_in_range_def)

lemma in_range_cat:
  "trial_in_range t \<Longrightarrow> cs \<noteq> [] \<Longrightarrow> suggest_categorical t name cs \<in> set cs"
  by (simp add: trial_in_range_def)

lemma rf_space:
  assumes "trial_in_range t"
    and "rec = map_of ((''model_type'', PStr ''rf'') # map (suggest t) (param_space e ''rf''))"
  shows "drawn_int rec t ''n_estimators'' 50 300 \<and>
         drawn_int rec t ''max_depth'' 3 20 \<and>
         drawn_int rec t ''min_samples_split'' 2 20 \<and>
         drawn_int rec t ''min_samples_leaf'' 1 10 \<and>
         rec ''learning_rate'' = None \<and> dom rec =
           {''model_type'', ''n_estimators'', ''max_depth'', ''min_samples_split'',
            ''min_samples_leaf''}"
  using in_range_int [OF assms(1), of 50 300 "''n_estimators''"]
    in_range_int [OF assms(1), of 3 20 "''max_depth''"]
    in_range_int [OF assms(1), of 2 20 "''min_samples_split''"]
    in_range_int [OF assms(1), of 1 10 "''min_samples_leaf''"]
  by (auto simp: assms(2) param_space_def drawn_int_def)

lemma xgb_space:
  assumes "trial_in_range t" and "HAS_XGBOOST e"
    and "rec = map_of ((''model_type'', PStr ''xgb'') # map (suggest t) (param_space e ''xgb''))"
  shows "drawn_int rec t ''n_estimators'' 50 300 \<and>
         drawn_float rec t ''learning_rate'' (1/100) (3/10) False \<and>
         drawn_int rec t ''max_depth'' 3 10 \<and>
         drawn_float rec t ''subsample'' (6/10) 1 False \<and>
         drawn_float rec t ''colsample_bytree'' (6/10) 1 False \<and> dom rec =
           {''model_type'', ''n_estimators'', ''learning_rate'', ''max_depth'', ''subsample'',
            ''colsample_bytree''}"
  using in_range_int [OF assms(1), of 50 300 "''n_estimators''"]
    in_range_int [OF assms(1), of 3 10 "''max_depth''"]
    in_range_float [OF assms(1), of "1/100" "3/10" "''learning_rate''" False]
    in_range_float [OF assms(1), of "6/10" 1 "''subsample''" False]
    in_range_float [OF assms(1), of "6/10" 1 "''colsample_bytree''" False]
  by (auto simp: assms(2,3) param_space_def drawn_int_def drawn_float_def)

lemma lgb_space:
  assumes "trial_in_range t" and "HAS_LIGHTGBM e"
    and "rec = map_of ((''model_type'', PStr ''lgb'') # map (suggest t) (param_space e ''lgb''))"
  shows "drawn_int rec t ''n_estimators'' 50 300 \<and>
         drawn_float rec t ''learning_rate'' (1/100) (3/10) False \<and>
         drawn_int rec t ''num_leaves'' 10 100 \<and>
         drawn_float rec t ''feature_fraction'' (5/10) 1 False \<and>
         drawn_float rec t ''bagging_fraction'' (5/10) 1 False \<and> dom rec =
           {''model_type'', ''n_estimators'', ''learning_rate'', ''num_leaves'',
            ''feature_fraction'', ''bagging_fraction''}"
  using in_range_int [OF assms(1), of 50 300 "''n_estimators''"]
    in_range_int [OF assms(1), of 10 100 "''num_leaves''"]
    in_range_float [OF assms(1), of "1/100" "3/10" "''learning_rate''" False]
    in_range_float [OF assms(1), of "5/10" 1 "''feature_fraction''" False]
    in_range_float [OF assms(1), of "5/10" 1 "''bagging_fraction''" False]
  by (auto simp: assms(2,3) param_space_def drawn_int_def drawn_float_def)

lemma svm_space:
  assumes "trial_in_range t"
    and "rec = map_of ((''model_type'', PStr ''svm'') # map (suggest t) (param_space e ''svm''))"
  shows "drawn_float rec t ''C'' (1/10) 100 True \<and>
         drawn_cat rec t ''gamma'' [''scale'', ''auto''] \<and>
         drawn_cat rec t ''kernel'' [''linear'', ''rbf'', ''poly''] \<and>
         dom rec = {''model_type'', ''C'', ''gamma'', ''kernel''}"
  using in_range_float [OF assms(1), of "1/10" 100 "''C''" True]
    in_range_cat [OF assms(1), of "[''scale'', ''auto'']" "''gamma''"]
    in_range_cat [OF assms(1), of "[''linear'', ''rbf'', ''poly'']" "''kernel''"]
  by (auto simp: assms(2) param_space_def drawn_float_def drawn_cat_def)

lemma linear_space:
  assumes "trial_in_range t"
    and "rec = map_of ((''model_type'', PStr ''linear'')
                 # map (suggest t) (param_space e ''linear''))"
  shows "drawn_cat rec t ''regularization'' [''none'', ''ridge'', ''lasso''] \<and>
         drawn_float rec t ''alpha'' (1/1000) 10 True \<and>
         dom rec = {''model_type'', ''regularization'', ''alpha''}"
  using in_range_float [OF assms(1), of "1/1000" 10 "''alpha''" True]
    in_range_cat [OF assms(1), of "[''none'', ''ridge'', ''lasso'']" "''regularization''"]
  by (auto simp: assms(2) param_space_def drawn_float_def drawn_cat_def)


text \<open>
  C8, as the code has it. Of a trial whose suggestions lie in the ranges asked for,
  the objective records the model type and exactly the following draws. \<open>rf\<close>:
  \<open>n_estimators\<close> in \<open>[50, 300]\<close>, \<open>max_depth\<close> in \<open>[3, 20]\<close>, \<open>min_samples_split\<close>
  in \<open>[2, 20]\<close>, \<open>min_samples_leaf\<close> in \<open>[1, 10]\<close>. \<open>xgb\<close>: \<open>n_estimators\<close> in
  \<open>[50, 300]\<close>, \<open>learning_rate\<close> in \<open>[0.01, 0.3]\<close>, \<open>max_depth\<close> in \<open>[3, 10]\<close>,
  \<open>subsample\<close> and \<open>colsample_bytree\<close> in \<open>[0.6, 1]\<close>. \<open>lgb\<close>: \<open>n_estimators\<close> in
  \<open>[50, 300]\<close>, \<open>learning_rate\<close> in \<open>[0.01, 0.3]\<close>, \<open>num_leaves\<close> in \<open>[10, 100]\<close>,
  \<open>feature_fraction\<close> and \<open>bagging_fraction\<close> in \<open>[0.5, 1]\<close>. \<open>svm\<close>: \<open>C\<close> in
  \<open>[0.1, 100]\<close>, \<open>gamma\<close> and \<open>kernel\<close>. \<open>linear\<close>: \<open>regularization\<close> and \<open>alpha\<close>
  in \<open>[0.001, 10]\<close>. Only \<open>C\<close> and \<open>alpha\<close> are asked for on a logarithmic scale;
  the learning rate and the fractions are asked for with \<^verbatim>\<open>log=False\<close>.
\<close>

theorem trial_draws:
  assumes "trial_in_range t"
  shows "let mt = suggest_categorical t ''model_type'' (model_types self);
             rec = map_of (fst (objective L e self X y metric t))
         in rec ''model_type'' = Some (PStr mt) \<and>
            (mt = ''rf'' \<longrightarrow>
               drawn_int rec t ''n_estimators'' 50 300 \<and>
               drawn_int rec t ''max_depth'' 3 20 \<and>
               drawn_int rec t ''min_samples_split'' 2 20 \<and>
               drawn_int rec t ''min_samples_leaf'' 1 10 \<and>
               rec ''learning_rate'' = None \<and>
               dom rec = {''model_type'', ''n_estimators'', ''max_depth'',
                          ''min_samples_split'', ''min_samples_leaf''}) \<and>
            (mt = ''xgb'' \<and> HAS_XGBOOST e \<longrightarrow>
               drawn_int rec t ''n_estimators'' 50 300 \<and>
               drawn_float rec t ''learning_rate'' (1/100) (3/10) False \<and>
               drawn_int rec t ''max_depth'' 3 10 \<and>
               drawn_float rec t ''subsample'' (6/10) 1 False \<and>
               drawn_float rec t ''colsample_bytree'' (6/10) 1 False \<and>
               dom rec = {''model_type'', ''n_estimators'', ''learning_rate'', ''max_depth'',
                          ''subsample'', ''colsample_bytree''}) \<and>
            (mt = ''lgb'' \<and> HAS_LIGHTGBM e \<longrightarrow>
               drawn_int rec t ''n_estimators'' 50 300 \<and>
               drawn_float rec t ''learning_rate'' (1/100) (3/10) False \<and>
               drawn_int rec t ''num_leaves'' 10 100 \<and>
               drawn_float rec t ''feature_fraction'' (5/10) 1 False \<and>
               drawn_float rec t ''bagging_fraction'' (5/10) 1 False \<and>
               dom rec = {''model_type'', ''n_estimators'', ''learning_rate'', ''num_leaves'',
                          ''feature_fraction'', ''bagging_fraction''}) \<and>
            (mt = ''svm'' \<longrightarrow>
               drawn_float rec t ''C'' (1/10) 100 True \<and>
               drawn_cat rec t ''gamma'' [''scale'', ''auto''] \<and>
               drawn_cat rec t ''kernel'' [''linear'', ''rbf'', ''poly''] \<and>
               dom rec = {''model_type'', ''C'', ''gamma'', ''kernel''}) \<and>
            (mt = ''linear'' \<longrightarrow>
               drawn_cat rec t ''regularization'' [''none'', ''ridge'', ''lasso''] \<and>
               drawn_float rec t ''alpha'' (1/1000) 10 True \<and>
               dom rec = {''model_type'', ''regularization'', ''alpha''})"
proof -
  let ?mt = "suggest_categorical t ''model_type'' (model_types self)"
  let ?rec = "map_of (fst (objective L e self X y metric t))"
  have r: "?rec = map_of ((''model_type'', PStr ?mt) # map (suggest t) (param_space e ?mt))"
    by (simp only: objective_recorded)
  have p0: "?rec ''model_type'' = Some (PStr ?mt)" by (simp add: r)
  have p1: "?mt = ''rf'' \<longrightarrow>
               drawn_int ?rec t ''n_estimators'' 50 300 \<and>
               drawn_int ?rec t ''max_depth'' 3 20 \<and>
               drawn_int ?rec t ''min_samples_split'' 2 20 \<and>
               drawn_int ?rec t ''min_samples_leaf'' 1 10 \<and>
               ?rec ''learning_rate'' = None \<and>
               dom ?rec = {''model_type'', ''n_estimators'', ''max_depth'',
                          ''min_samples_split'', ''min_samples_leaf''}"
  proof
    assume m: "?mt = ''rf''"
    with r have "?rec = map_of ((''model_type'', PStr ''rf'')
                           # map (suggest t) (param_space e ''rf''))" by simp
    from rf_space [OF assms this] show "drawn_int ?rec t ''n_estimators'' 50 300 \<and>
               drawn_int ?rec t ''max_depth'' 3 20 \<and>
               drawn_int ?rec t ''min_samples_split'' 2 20 \<and>
               drawn_int ?rec t ''min_samples_leaf'' 1 10 \<and>
               ?rec ''learning_rate'' = None \<and>
               dom ?rec = {''model_type'', ''n_estimators'', ''max_depth'',
                          ''min_samples_split'', ''min_samples_leaf''}" .
  qed
  have p2: "?mt = ''xgb'' \<and> HAS_XGBOOST e \<longrightarrow>
               drawn_int ?rec t ''n_estimators'' 50 300 \<and>
               drawn_float ?rec t ''learning_rate'' (1/100) (3/10) False \<and>
               drawn_int ?rec t ''max_depth'' 3 10 \<and>
               drawn_float ?rec t ''subsample'' (6/10) 1 False \<and>
               drawn_float ?rec t ''colsample_bytree'' (6/10) 1 False \<and>
               dom ?rec = {''model_type'', ''n_estimators'', ''learning_rate'', ''max_depth'',
                          ''subsample'', ''colsample_bytree''}"
  proof
    assume m: "?mt = ''xgb'' \<and> HAS_XGBOOST e"
    with r have q: "?rec = map_of ((''model_type'', PStr ''xgb'')
                           # map (suggest t) (param_space e ''xgb''))" by simp
    from m have fl: "HAS_XGBOOST e" by simp
    from xgb_space [OF assms fl q] show "drawn_int ?rec t ''n_estimators'' 50 300 \<and>
               drawn_float ?rec t ''learning_rate'' (1/100) (3/10) False \<and>
               drawn_int ?rec t ''max_depth'' 3 10 \<and>
               drawn_float ?rec t ''subsample'' (6/10) 1 False \<and>
               drawn_float ?rec t ''colsample_bytree'' (6/10) 1 False \<and>
               dom ?rec = {''model_type'', ''n_estimators'', ''learning_rate'', ''max_depth'',
                          ''subsample'', ''colsample_bytree''}" .
  qed
  have p3: "?mt = ''lgb'' \<and> HAS_LIGHTGBM e \<longrightarrow>
               drawn_int ?rec t ''n_estimators'' 50 300 \<and>
               drawn_float ?rec t ''learning_rate'' (1/100) (3/10) False \<and>
               drawn_int ?rec t ''num_leaves'' 10 100 \<and>
               drawn_float ?rec t ''feature_fraction'' (5/10) 1 False \<and>
               drawn_float ?rec t ''bagging_fraction'' (5/10) 1 False \<and>
               dom ?rec = {''model_type'', ''n_estimators'', ''learning_rate'', ''num_leaves'',
                          ''feature_fraction'', ''bagging_fraction''}"
  proof
    assume m: "?mt = ''lgb'' \<and> HAS_LIGHTGBM e"
    with r have q: "?rec = map_of ((''model_type'', PStr ''lgb'')
                           # map (suggest t) (param_space e ''lgb''))" by simp
    from m have fl: "HAS_LIGHTGBM e" by simp
    from lgb_space [OF assms fl q] show "drawn_int ?rec t ''n_estimators'' 50 300 \<and>
               drawn_float ?rec t ''learning_rate'' (1/100) (3/10) False \<and>
               drawn_int ?rec t ''num_leaves'' 10 100 \<and>
               drawn_float ?rec t ''feature_fraction'' (5/10) 1 False \<and>
               drawn_float ?rec t ''bagging_fraction'' (5/10) 1 False \<and>
               dom ?rec = {''model_type'', ''n_estimators'', ''learning_rate'', ''num_leaves'',
                          ''feature_fraction'', ''bagging_fraction''}" .
  qed
  have p4: "?mt = ''svm'' \<longrightarrow>
               drawn_float ?rec t ''C'' (1/10) 100 True \<and>
               drawn_cat ?rec t ''gamma'' [''scale'', ''auto''] \<and>
               drawn_cat ?rec t ''kernel'' [''linear'', ''rbf'', ''poly''] \<and>
               dom ?rec = {''model_type'', ''C'', ''gamma'', ''kernel''}"
  proof
    assume m: "?mt = ''svm''"
    with r have "?rec = map_of ((''model_type'', PStr ''svm'')
                           # map (suggest t) (param_space e ''svm''))" by simp
    from svm_space [OF assms this] show "drawn_float ?rec t ''C'' (1/10) 100 True \<and>
               drawn_cat ?rec t ''gamma'' [''scale'', ''auto''] \<and>
               drawn_cat ?rec t ''kernel'' [''linear'', ''rbf'', ''poly''] \<and>
               dom ?rec = {''model_type'', ''C'', ''gamma'', ''kernel''}" .
  qed
  have p5: "?mt = ''linear'' \<longrightarrow>
               drawn_cat ?rec t ''regularization'' [''none'', ''ridge'', ''lasso''] \<and>
               drawn_float ?rec t ''alpha'' (1/1000) 10 True \<and>
               dom ?rec = {''model_type'', ''regularization'', ''alpha''}"
  proof
    assume m: "?mt = ''linear''"
    with r have "?rec = map_of ((''model_type'', PStr ''linear'')
                           # map (suggest t) (param_space e ''linear''))" by simp
    from linear_space [OF assms this] show
      "drawn_cat ?rec t ''regularization'' [''none'', ''ridge'', ''lasso''] \<and>
               drawn_float ?rec t ''alpha'' (1/1000) 10 True \<and>
               dom ?rec = {''model_type'', ''regularization'', ''alpha''}" .
  qed
  show ?thesis unfolding Let_def
    by (intro conjI) (rule p0, rule p1, rule p2, rule p3, rule p4, rule p5)
qed

theorem trial_draws_witness:
  "trial_in_range low_trial \<and>
   suggest_categorical low_trial ''model_type'' (model_types (demo_automl [''xgb''] ''r2'' 1))
     = ''xgb'' \<and>
   HAS_XGBOOST demo_env \<and>
   drawn_float (map_of (fst (objective demo_libs demo_env (demo_automl [''xgb''] ''r2'' 1)
                               demo_X demo_y ''r2'' low_trial)))
     low_trial ''learning_rate'' (1/100) (3/10) False \<and>
   drawn_int (map_of (fst (objective demo_libs demo_env (demo_automl [''xgb''] ''r2'' 1)
                               demo_X demo_y ''r2'' low_trial)))
     low_trial ''n_estimators'' 50 300 \<and>
   suggest_float low_trial ''learning_rate'' (1/100) (3/10) False = 1/100"
proof -
  have m: "suggest_categorical low_trial ''model_type''
             (model_types (demo_automl [''xgb''] ''r2'' 1)) = ''xgb''"
    by (simp add: low_trial_def demo_automl_def)
  have x: "HAS_XGBOOST demo_env" by (simp add: demo_env_def)
  have v: "suggest_float low_trial ''learning_rate'' (1/100) (3/10) False = 1/100"
    by (simp add: low_trial_def)
  show ?thesis
    using low_trial_in_range m x v
      trial_draws [OF low_trial_in_range, of "demo_automl [''xgb''] ''r2'' 1" demo_libs demo_env
        demo_X demo_y "''r2''"]
    by (simp add: Let_def)
qed

text \<open>
  The learning rate of \<open>xgb\<close> is asked for with \<^verbatim>\<open>log=False\<close>; the regularisation
  strength \<open>C\<close> of \<open>svm\<close> ranges up to \<open>100\<close>, and a trial may answer \<open>100\<close>.
\<close>

theorem search_space_counterexample:
  "map_of (param_space demo_env ''xgb'') ''learning_rate''
     = Some (FloatDist (1/100) (3/10) False) \<and>
   \<not> is_log (FloatDist (1/100) (3/10) False) \<and>
   map_of (param_space demo_env ''svm'') ''C'' = Some (FloatDist (1/10) 100 True) \<and>
   suggest high_trial (''C'', FloatDist (1/10) 100 True) = (''C'', PFloat 100) \<and>
   \<not> in_dist (FloatDist 0 1 True) (PFloat 100)"
  by (simp add: param_space_def demo_env_def high_trial_def)

section \<open>Failing candidates\<close>








section \<open>The final fit\<close>

lemma unbound_names:
  "global_name ''train_test_split'' = Inl (NameError ''train_test_split'')"
  "global_name ''RandomForestModel'' = Inl (NameError ''RandomForestModel'')"
  "global_name ''SVMModel'' = Inl (NameError ''SVMModel'')"
  "global_name ''LinearModel'' = Inl (NameError ''LinearModel'')"
  by (simp_all add: global_name_def module_names_def)

lemma create_model_boosted:
  assumes "create_model L e tt model_type ps = Inr m"
  shows "cls m = ''XGBoostModel'' \<or> cls m = ''LightGBMModel''"
  using assms
  by (auto simp: create_model_def unbound_names XGBoostModel_init_def LightGBMModel_init_def
      Let_def split: if_splits sum.splits)

lemma boosted_fit_raises:
  assumes "cls m = ''XGBoostModel'' \<or> cls m = ''LightGBMModel''"
  shows "candidate_fit L m X y = (Inl (NameError ''train_test_split''), m)"
  using assms
  by (auto simp: candidate_fit_def XGBoostModel_fit_def LightGBMModel_fit_def unbound_names)

lemma fit_with_optuna_never_returns:
  assumes "HAS_OPTUNA e"
  shows "\<exists>ex. fst (AutoMLModel_fit L e ask budget self X y) = Inl ex"
proof -
  have "\<And>tt mt ps m. create_model L e tt mt ps = Inr m \<Longrightarrow>
          candidate_fit L m X y = (Inl (NameError ''train_test_split''), m)"
    using create_model_boosted boosted_fit_raises by blast
  then show ?thesis
    using assms
    by (auto simp: AutoMLModel_fit_def Let_def split: prod.splits option.splits sum.splits)
qed

text \<open>
  C5 on the code. Ten samples and one trial. With \<open>xgb\<close> the only family, the search
  finds a best trial, the final model is built, and its \<^verbatim>\<open>fit\<close> raises
  \<^verbatim>\<open>NameError\<close> at \<^verbatim>\<open>train_test_split\<close> before any sample reaches the estimator. With
  \<open>rf\<close> the only family, \<^verbatim>\<open>_create_model\<close> raises \<^verbatim>\<open>NameError\<close> at
  \<^verbatim>\<open>RandomForestModel\<close>. In both runs \<^verbatim>\<open>fit\<close> ends in the exception and the
  orchestrator stays unfitted.
\<close>

theorem final_fit_raises:
  "fst (AutoMLModel_fit demo_libs demo_env (\<lambda>h. low_trial) 0 (demo_automl [''xgb''] ''r2'' 1)
          demo_X demo_y) = Inl (NameError ''train_test_split'') \<and>
   map_option (\<lambda>m. (cls m, is_fitted m, est_trained_on (model m)))
     (best_model (fst (snd (AutoMLModel_fit demo_libs demo_env (\<lambda>h. low_trial) 0
        (demo_automl [''xgb''] ''r2'' 1) demo_X demo_y))))
     = Some (''XGBoostModel'', False, None) \<and>
   \<not> is_fitted (fst (snd (AutoMLModel_fit demo_libs demo_env (\<lambda>h. low_trial) 0
        (demo_automl [''xgb''] ''r2'' 1) demo_X demo_y))) \<and>
   fst (AutoMLModel_fit demo_libs demo_env (\<lambda>h. low_trial) 0 (demo_automl [''rf''] ''r2'' 1)
          demo_X demo_y) = Inl (NameError ''RandomForestModel'') \<and>
   best_model (fst (snd (AutoMLModel_fit demo_libs demo_env (\<lambda>h. low_trial) 0
        (demo_automl [''rf''] ''r2'' 1) demo_X demo_y))) = None"
  by (simp add: AutoMLModel_fit_def demo_env_def demo_automl_def resolve_metric_def
      trials_run_def objective_def objective_try_def Let_def low_trial_def param_space_def
      create_model_def unbound_names XGBoostModel_init_def BaseModel_init_def kw_def
      choose_cv_strategy_def KFold_def len_def demo_y_def demo_X_def demo_libs_def
      cv_value_def scoring_def mean_def failure_score_def
      best_trial_def candidate_fit_def XGBoostModel_fit_def)

section \<open>Voting\<close>









section \<open>What a search samples\<close>











end
